theory Spec2Isabelle
  imports Main
begin

section \<open>server.py: a static file server that registers a MIME type for .js\<close>

text \<open>
  The whole program is the body of one module:
  \<^verbatim>\<open>
  import http.server
  import mimetypes

  mimetypes.add_type('application/javascript', '.js')

  Handler = http.server.SimpleHTTPRequestHandler

  if __name__ == '__main__':
      port = 5500
      print(f'Serving on http://localhost:{port} (Ctrl-C to stop)')
      http.server.test(HandlerClass=Handler, port=port)
  \<close>
  It makes three calls into the standard library, in this order, the last two only when
  the module is run as a program. The model passes the state of the process through the
  module body and stops where control enters \<open>http.server.test\<close>: what the
  library's server does from there on (binding the socket, answering requests) is the
  library's code, not this module's, and is not modelled.
\<close>

subsection \<open>The process\<close>

text \<open>How the interpreter was started: the value of \<open>__name__\<close> in the module
  (\<open>__main__\<close> when run as a program, the module's own name when imported), the
  command line and the environment. The module body reads only the first.\<close>

record invocation =
  name :: string
  argv :: "string list"
  environ :: "string \<rightharpoonup> string"

text \<open>The standard-library calls of the module body that return.\<close>

datatype call =
    Add_type string string
  | Print string

text \<open>The state of the process. Of the module \<open>mimetypes\<close>: its table
  \<open>types_map\<close> (extension to content type), whether its database has been loaded
  (\<open>_db is not None\<close>), and the table that \<open>mimetypes.init()\<close> loads on this platform
  (the built-in table overlaid with the entries of the system's registry and
  \<open>mime.types\<close> files). Then what has been written to standard output, and the library
  calls the module body has made so far, the latest last.\<close>

record process =
  types_map :: "string \<rightharpoonup> string"
  db_loaded :: bool
  platform_types :: "string \<rightharpoonup> string"
  stdout :: string
  calls :: "call list"

text \<open>A process in which nothing of the module body has run yet. The state of
  \<open>mimetypes\<close> is arbitrary: loaded or not (\<open>l\<close>), with any table \<open>m\<close> and any
  platform table \<open>k\<close>. A program started on its own finds the database not loaded; a
  module imported late may find it loaded and changed by others.\<close>

definition start :: "bool \<Rightarrow> (string \<rightharpoonup> string) \<Rightarrow> (string \<rightharpoonup> string) \<Rightarrow> process" where
  "start l m k =
     \<lparr>types_map = m, db_loaded = l, platform_types = k, stdout = [], calls = []\<rparr>"

datatype handler_class = SimpleHTTPRequestHandler

text \<open>How the module body ends: it runs to its last line (\<open>Module_end\<close>), or control
  enters \<open>http.server.test(HandlerClass=h, port=p)\<close> in the process state given, and the
  library starts its listener.\<close>

datatype outcome =
    Module_end process
  | Http_server_test handler_class int process

subsection \<open>The library calls\<close>

text \<open>\<open>mimetypes.init()\<close> builds a new database from the platform's table, makes its
  table the module's \<open>types_map\<close> and records the database as loaded.\<close>

definition init :: "process \<Rightarrow> process" where
  "init s = s\<lparr>types_map := platform_types s, db_loaded := True\<rparr>"

text \<open>\<open>mimetypes.add_type(type, ext)\<close>:
  \<^verbatim>\<open>
  if _db is None:
      init()
  return _db.add_type(type, ext, strict)
  \<close>
  where the method stores \<open>types_map[ext] = type\<close>, so that a type already known for
  the extension is replaced.\<close>

definition add_type :: "string \<Rightarrow> string \<Rightarrow> process \<Rightarrow> process" where
  "add_type type ext s =
     (let s' = (if db_loaded s then s else init s)
      in s'\<lparr>types_map := (types_map s')(ext \<mapsto> type),
             calls := calls s' @ [Add_type type ext]\<rparr>)"

text \<open>\<open>print(msg)\<close> writes the message and a newline to standard output.\<close>

definition print :: "string \<Rightarrow> process \<Rightarrow> process" where
  "print msg s = s\<lparr>stdout := stdout s @ msg @ [CHR 0x0A], calls := calls s @ [Print msg]\<rparr>"

text \<open>\<open>str\<close> of an integer, as an f-string formats \<open>{port}\<close>: decimal digits, with a
  minus sign for a negative number.\<close>

definition digit :: "nat \<Rightarrow> char" where
  "digit d = ''0123456789'' ! d"

fun str_nat :: "nat \<Rightarrow> string" where
  "str_nat n = (if n < 10 then [digit n] else str_nat (n div 10) @ [digit (n mod 10)])"

declare str_nat.simps [simp del]

definition str :: "int \<Rightarrow> string" where
  "str i = (if i < 0 then CHR ''-'' # str_nat (nat (- i)) else str_nat (nat i))"

subsection \<open>The module body\<close>

definition Handler :: handler_class where
  "Handler = SimpleHTTPRequestHandler"

definition server_module :: "invocation \<Rightarrow> process \<Rightarrow> outcome" where
  "server_module iv s =
     (let s1 = add_type ''application/javascript'' ''.js'' s in
      if name iv = ''__main__'' then
        (let port = 5500;
             s2 = print (''Serving on http://localhost:'' @ str port @ '' (Ctrl-C to stop)'') s1
         in Http_server_test Handler port s2)
      else Module_end s1)"

text \<open>Whether the run hands control to the library's server, the port it passes, and
  the state of the process at the end of the module body: for a run that starts the
  server, the state in which control enters \<open>http.server.test\<close>, before the listener
  exists.\<close>

fun starts_server :: "outcome \<Rightarrow> bool" where
  "starts_server (Module_end s) = False"
| "starts_server (Http_server_test h p s) = True"

fun listening_port :: "outcome \<Rightarrow> int option" where
  "listening_port (Module_end s) = None"
| "listening_port (Http_server_test h p s) = Some p"

fun state_of :: "outcome \<Rightarrow> process" where
  "state_of (Module_end s) = s"
| "state_of (Http_server_test h p s) = s"

text \<open>The calls that register a content type for an extension, and the messages
  printed, both in program order.\<close>

fun is_add_type :: "call \<Rightarrow> bool" where
  "is_add_type (Add_type t e) = True"
| "is_add_type (Print msg) = False"

fun printed :: "call list \<Rightarrow> string list" where
  "printed [] = []"
| "printed (Add_type t e # cs) = printed cs"
| "printed (Print msg # cs) = msg # printed cs"

section \<open>Properties\<close>

subsection \<open>The library calls and the two ways through the module body\<close>

lemma str_5500: "str 5500 = ''5500''"
  by (simp add: str_def str_nat.simps digit_def)

lemma server_module_main:
  "name iv = ''__main__'' \<Longrightarrow>
   server_module iv s =
     Http_server_test Handler 5500
       (print ''Serving on http://localhost:5500 (Ctrl-C to stop)''
          (add_type ''application/javascript'' ''.js'' s))"
  by (simp add: server_module_def str_5500)

lemma server_module_import:
  "name iv \<noteq> ''__main__'' \<Longrightarrow>
   server_module iv s = Module_end (add_type ''application/javascript'' ''.js'' s)"
  by (simp add: server_module_def)

text \<open>Whichever way the module is loaded, at every extension other than \<open>.js\<close> the
  table ends as the loaded database has it: as it was when the database was loaded
  already, as \<open>init\<close> loads it from the platform otherwise.\<close>

lemma server_module_frame:
  "e \<noteq> ''.js'' \<Longrightarrow>
   types_map (state_of (server_module iv s)) e
     = types_map (if db_loaded s then s else init s) e"
  by (cases "name iv = ''__main__''")
     (simp_all add: server_module_main server_module_import print_def add_type_def Let_def)

subsection \<open>Registration of the .js type\<close>

text \<open>
  C2. Run as a program from a process in which the state of \<open>mimetypes\<close> is arbitrary
  (database loaded or not; \<open>.js\<close> mapped to another type, or to none, in the table and in
  what the platform would load), the module hands control to the library's server, and
  in the state in which it does so the database is loaded and its table maps \<open>.js\<close> to
  \<open>application/javascript\<close>; the calls made up to that point contain exactly one
  registration, the one for \<open>.js\<close>. So the entry is in place, whatever was there before,
  and it was put there once, before the listener starts.
\<close>

theorem js_registered_once_before_listener:
  assumes "name iv = ''__main__''"
  shows "starts_server (server_module iv (start l m k))
       \<and> types_map (state_of (server_module iv (start l m k))) ''.js''
           = Some ''application/javascript''
       \<and> filter is_add_type (calls (state_of (server_module iv (start l m k))))
           = [Add_type ''application/javascript'' ''.js'']
       \<and> db_loaded (state_of (server_module iv (start l m k)))"
  using assms
  by (simp add: server_module_main start_def print_def add_type_def init_def Let_def)

theorem js_registered_once_before_listener_witness:
  "name \<lparr>name = ''__main__'', argv = [''server.py''], environ = Map.empty\<rparr> = ''__main__''
   \<and> starts_server (server_module \<lparr>name = ''__main__'', argv = [''server.py''], environ = Map.empty\<rparr> (start False [''.js'' \<mapsto> ''text/javascript''] [''.js'' \<mapsto> ''text/javascript'', ''.css'' \<mapsto> ''text/css'']))
   \<and> types_map (state_of (server_module \<lparr>name = ''__main__'', argv = [''server.py''], environ = Map.empty\<rparr> (start False [''.js'' \<mapsto> ''text/javascript''] [''.js'' \<mapsto> ''text/javascript'', ''.css'' \<mapsto> ''text/css'']))) ''.js''
       = Some ''application/javascript''
   \<and> filter is_add_type (calls (state_of (server_module \<lparr>name = ''__main__'', argv = [''server.py''], environ = Map.empty\<rparr> (start False [''.js'' \<mapsto> ''text/javascript''] [''.js'' \<mapsto> ''text/javascript'', ''.css'' \<mapsto> ''text/css'']))))
       = [Add_type ''application/javascript'' ''.js'']
   \<and> db_loaded (state_of (server_module \<lparr>name = ''__main__'', argv = [''server.py''], environ = Map.empty\<rparr> (start False [''.js'' \<mapsto> ''text/javascript''] [''.js'' \<mapsto> ''text/javascript'', ''.css'' \<mapsto> ''text/css''])))"
proof -
  have h: "name \<lparr>name = ''__main__'', argv = [''server.py''], environ = Map.empty\<rparr> = ''__main__''"
    by simp
  from js_registered_once_before_listener [OF h,
      of False "[''.js'' \<mapsto> ''text/javascript'']"
         "[''.js'' \<mapsto> ''text/javascript'', ''.css'' \<mapsto> ''text/css'']"] h
  show ?thesis by blast
qed

subsection \<open>The port\<close>

text \<open>
  C6. Run as a program, the module passes port 5500 to the library's server, whatever
  the command line \<open>a\<close> and the environment \<open>e\<close> of the process are: neither is read,
  and the port is the same on every invocation.
\<close>

theorem listening_port_fixed:
  assumes "name iv = ''__main__''"
  shows "listening_port (server_module (iv\<lparr>argv := a, environ := e\<rparr>) s) = Some 5500"
  using assms
  by (simp add: server_module_main)

theorem listening_port_fixed_witness:
  "name \<lparr>name = ''__main__'', argv = [], environ = Map.empty\<rparr> = ''__main__''
   \<and> listening_port
        (server_module
           (\<lparr>name = ''__main__'', argv = [], environ = Map.empty\<rparr>
              \<lparr>argv := [''server.py'', ''--port'', ''8000''],
               environ := [''PORT'' \<mapsto> ''8000'']\<rparr>)
           (start False Map.empty Map.empty))
       = Some 5500"
proof -
  have h: "name \<lparr>name = ''__main__'', argv = [], environ = Map.empty\<rparr> = ''__main__''"
    by simp
  from listening_port_fixed [OF h,
      where a = "[''server.py'', ''--port'', ''8000'']"
        and e = "[''PORT'' \<mapsto> ''8000'']" and s = "start False Map.empty Map.empty"] h
  show ?thesis by blast
qed

subsection \<open>The startup message\<close>

text \<open>
  C8. Run as a program, the module hands control to the library's server with some port
  \<open>p\<close>, and in the state in which it does so standard output already holds the startup
  message: one line (a text without a newline, followed by one newline) that announces
  the URL of that same port, \<open>http://localhost:p\<close> with \<open>p\<close> in decimal. The message is
  printed before the server can accept anything, and the port it names is the port the
  server is given.
\<close>

theorem startup_message_before_listener:
  assumes "name iv = ''__main__''"
  shows "starts_server (server_module iv (start l m k))
       \<and> (\<exists>p msg. listening_port (server_module iv (start l m k)) = Some p
             \<and> msg = ''Serving on '' @ (''http://localhost:'' @ str p) @ '' (Ctrl-C to stop)''
             \<and> CHR 0x0A \<notin> set msg
             \<and> stdout (state_of (server_module iv (start l m k))) = msg @ [CHR 0x0A])"
proof -
  let ?r = "server_module iv (start l m k)"
  let ?msg = "''Serving on '' @ (''http://localhost:'' @ str 5500) @ '' (Ctrl-C to stop)''"
  have port: "listening_port ?r = Some 5500"
    using assms by (simp add: server_module_main)
  have one_line: "CHR 0x0A \<notin> set ?msg"
    by (simp add: str_5500)
  have out: "stdout (state_of ?r) = ?msg @ [CHR 0x0A]"
    using assms
    by (simp add: server_module_main start_def print_def add_type_def init_def Let_def str_5500)
  have "starts_server ?r"
    using assms by (simp add: server_module_main)
  with port one_line out show ?thesis
    by blast
qed

theorem startup_message_before_listener_witness:
  "name \<lparr>name = ''__main__'', argv = [''server.py''], environ = Map.empty\<rparr> = ''__main__''
   \<and> starts_server (server_module \<lparr>name = ''__main__'', argv = [''server.py''], environ = Map.empty\<rparr> (start False [''.js'' \<mapsto> ''text/javascript''] [''.js'' \<mapsto> ''text/javascript'', ''.css'' \<mapsto> ''text/css'']))
   \<and> (\<exists>p msg. listening_port (server_module \<lparr>name = ''__main__'', argv = [''server.py''], environ = Map.empty\<rparr> (start False [''.js'' \<mapsto> ''text/javascript''] [''.js'' \<mapsto> ''text/javascript'', ''.css'' \<mapsto> ''text/css''])) = Some p
         \<and> msg = ''Serving on '' @ (''http://localhost:'' @ str p) @ '' (Ctrl-C to stop)''
         \<and> CHR 0x0A \<notin> set msg
         \<and> stdout (state_of (server_module \<lparr>name = ''__main__'', argv = [''server.py''], environ = Map.empty\<rparr> (start False [''.js'' \<mapsto> ''text/javascript''] [''.js'' \<mapsto> ''text/javascript'', ''.css'' \<mapsto> ''text/css'']))) = msg @ [CHR 0x0A])"
proof -
  have h: "name \<lparr>name = ''__main__'', argv = [''server.py''], environ = Map.empty\<rparr> = ''__main__''"
    by simp
  from startup_message_before_listener [OF h,
      of False "[''.js'' \<mapsto> ''text/javascript'']"
         "[''.js'' \<mapsto> ''text/javascript'', ''.css'' \<mapsto> ''text/css'']"] h
  show ?thesis by blast
qed

text \<open>
  C10. On every run as a program (any command line, any environment, any state of
  \<open>mimetypes\<close> to start from) exactly one message is printed before control enters the
  library's server, and it is the string
  \<open>Serving on http://localhost:5500 (Ctrl-C to stop)\<close>; standard output holds that
  string and the newline \<open>print\<close> ends it with.
\<close>

theorem startup_message_exact:
  assumes "name iv = ''__main__''"
  shows "printed (calls (state_of (server_module iv (start l m k))))
           = [''Serving on http://localhost:5500 (Ctrl-C to stop)'']
       \<and> stdout (state_of (server_module iv (start l m k)))
           = ''Serving on http://localhost:5500 (Ctrl-C to stop)'' @ [CHR 0x0A]"
  using assms
  by (simp add: server_module_main start_def print_def add_type_def init_def Let_def)

theorem startup_message_exact_witness:
  "name \<lparr>name = ''__main__'', argv = [''server.py''], environ = Map.empty\<rparr> = ''__main__''
   \<and> printed (calls (state_of (server_module \<lparr>name = ''__main__'', argv = [''server.py''], environ = Map.empty\<rparr> (start False [''.js'' \<mapsto> ''text/javascript''] [''.js'' \<mapsto> ''text/javascript'', ''.css'' \<mapsto> ''text/css'']))))
       = [''Serving on http://localhost:5500 (Ctrl-C to stop)'']
   \<and> stdout (state_of (server_module \<lparr>name = ''__main__'', argv = [''server.py''], environ = Map.empty\<rparr> (start False [''.js'' \<mapsto> ''text/javascript''] [''.js'' \<mapsto> ''text/javascript'', ''.css'' \<mapsto> ''text/css''])))
       = ''Serving on http://localhost:5500 (Ctrl-C to stop)'' @ [CHR 0x0A]"
proof -
  have h: "name \<lparr>name = ''__main__'', argv = [''server.py''], environ = Map.empty\<rparr> = ''__main__''"
    by simp
  from startup_message_exact [OF h,
      of False "[''.js'' \<mapsto> ''text/javascript'']"
         "[''.js'' \<mapsto> ''text/javascript'', ''.css'' \<mapsto> ''text/css'']"] h
  show ?thesis by blast
qed

subsection \<open>Importing the module\<close>

text \<open>
  C9. Loaded under any name other than \<open>__main__\<close> (imported, not run), the module
  still installs the entry for \<open>.js\<close> in the registry of the process, whatever state
  \<open>mimetypes\<close> was in, and leaves the database loaded, but it does not hand control to
  the library's server: no listener is started, no port is passed, and nothing is
  printed.
\<close>

theorem import_registers_without_listening:
  assumes "name iv \<noteq> ''__main__''"
  shows "types_map (state_of (server_module iv (start l m k))) ''.js''
           = Some ''application/javascript''
       \<and> \<not> starts_server (server_module iv (start l m k))
       \<and> listening_port (server_module iv (start l m k)) = None
       \<and> stdout (state_of (server_module iv (start l m k))) = []
       \<and> db_loaded (state_of (server_module iv (start l m k)))"
  using assms
  by (simp add: server_module_import start_def add_type_def init_def Let_def)

theorem import_registers_without_listening_witness:
  "name \<lparr>name = ''server'', argv = [''app.py''], environ = Map.empty\<rparr> \<noteq> ''__main__''
   \<and> types_map (state_of (server_module \<lparr>name = ''server'', argv = [''app.py''], environ = Map.empty\<rparr> (start True [''.js'' \<mapsto> ''text/javascript''] Map.empty))) ''.js''
       = Some ''application/javascript''
   \<and> \<not> starts_server (server_module \<lparr>name = ''server'', argv = [''app.py''], environ = Map.empty\<rparr> (start True [''.js'' \<mapsto> ''text/javascript''] Map.empty))
   \<and> listening_port (server_module \<lparr>name = ''server'', argv = [''app.py''], environ = Map.empty\<rparr> (start True [''.js'' \<mapsto> ''text/javascript''] Map.empty)) = None
   \<and> stdout (state_of (server_module \<lparr>name = ''server'', argv = [''app.py''], environ = Map.empty\<rparr> (start True [''.js'' \<mapsto> ''text/javascript''] Map.empty))) = []
   \<and> db_loaded (state_of (server_module \<lparr>name = ''server'', argv = [''app.py''], environ = Map.empty\<rparr> (start True [''.js'' \<mapsto> ''text/javascript''] Map.empty)))"
proof -
  have h: "name \<lparr>name = ''server'', argv = [''app.py''], environ = Map.empty\<rparr> \<noteq> ''__main__''"
    by simp
  from import_registers_without_listening [OF h,
      of True "[''.js'' \<mapsto> ''text/javascript'']" Map.empty] h
  show ?thesis by blast
qed

end
